theory Spec2Isabelle
  imports Complex_Main
begin

section \<open>Numbers, errors and the portfolio ledger\<close>

text \<open>
  The module \<open>ta_functions.py\<close> is Python 2 on top of numpy and pandas.  Cash amounts
  and prices are modelled as real numbers (the arithmetic of the source read exactly),
  share counts as unbounded integers, dates as day numbers.  A \<open>raise\<close> of the source is
  a value of type \<open>error\<close>; a portfolio method returns the error it raised, if any,
  together with the object as the call left it.  The narration printed when \<open>verbose\<close>
  is set is output only and is not part of the state.
\<close>

datatype error =
    InsufficientFunds   \<comment> \<open>'You do not own enough cash to purchase this many securities.'\<close>
  | OverSell            \<comment> \<open>'You do not have .. shares in this security. ..'\<close>
  | NotOwned            \<comment> \<open>'You do not own shares in this security.'\<close>
  | ZeroDivisionError   \<comment> \<open>division of the cash amount by a zero price\<close>
  | KeyError            \<comment> \<open>a row or frame has no column of that name\<close>
  | UnboundLocalError   \<comment> \<open>a local variable is read before any assignment\<close>
  | NdaysLength         \<comment> \<open>'Length of ndays must be 2.'\<close>
  | TypeError           \<comment> \<open>pandas: 'Empty ..: no numeric data to plot'\<close>

text \<open>One row of \<open>trans_df\<close>; its columns are
  \<open>date, security, trans_type, security_price, amt, total_cash_amt\<close>.\<close>

record transaction =
  tr_date :: nat
  tr_security :: string
  trans_type :: string
  tr_security_price :: real
  amt :: real
  tr_total_cash_amt :: real

record security_portfolio =
  start_cash_amt :: real
  total_cash_amt :: real
  security_dict :: "string \<rightharpoonup> int"
  verbose :: bool
  trans_df :: "transaction list"

definition init :: "real \<Rightarrow> bool \<Rightarrow> security_portfolio" where
  "init cash v =
     \<lparr>start_cash_amt = cash, total_cash_amt = cash, security_dict = Map.empty,
      verbose = v, trans_df = []\<rparr>"

definition buy_securities ::
  "string \<Rightarrow> int \<Rightarrow> real \<Rightarrow> nat \<Rightarrow> security_portfolio \<Rightarrow> error option \<times> security_portfolio" where
  "buy_securities ticker_symbol amount security_price trans_date self =
     (if of_int amount * security_price \<le> total_cash_amt self then
        let dict' = (case security_dict self ticker_symbol of
                       Some n \<Rightarrow> (security_dict self)(ticker_symbol \<mapsto> n + amount)
                     | None \<Rightarrow> (security_dict self)(ticker_symbol \<mapsto> amount));
            cash' = total_cash_amt self - of_int amount * security_price;
            added_row = \<lparr>tr_date = trans_date, tr_security = ticker_symbol,
                         trans_type = ''Buy'', tr_security_price = security_price,
                         amt = security_price * of_int amount, tr_total_cash_amt = cash'\<rparr>
        in (None, self\<lparr>security_dict := dict', total_cash_amt := cash',
                        trans_df := trans_df self @ [added_row]\<rparr>)
      else (Some InsufficientFunds, self))"

definition buy_max_securities ::
  "string \<Rightarrow> real \<Rightarrow> nat \<Rightarrow> security_portfolio \<Rightarrow> error option \<times> security_portfolio" where
  "buy_max_securities ticker_symbol security_price trans_date self =
     (if security_price = 0 then (Some ZeroDivisionError, self)
      else buy_securities ticker_symbol \<lfloor>total_cash_amt self / security_price\<rfloor>
             security_price trans_date self)"

definition get_total_cash_amt :: "security_portfolio \<Rightarrow> real" where
  "get_total_cash_amt self = total_cash_amt self"

definition sell_securities ::
  "string \<Rightarrow> int \<Rightarrow> real \<Rightarrow> nat \<Rightarrow> security_portfolio \<Rightarrow> error option \<times> security_portfolio" where
  "sell_securities ticker_symbol amount security_price trans_date self =
     (case security_dict self ticker_symbol of
        Some num_of_security \<Rightarrow>
          if amount > num_of_security then (Some OverSell, self)
          else
            let dict' = (security_dict self)(ticker_symbol \<mapsto> num_of_security - amount);
                cash' = total_cash_amt self + of_int amount * security_price;
                added_row = \<lparr>tr_date = trans_date, tr_security = ticker_symbol,
                             trans_type = ''Sell'', tr_security_price = security_price,
                             amt = security_price * of_int amount, tr_total_cash_amt = cash'\<rparr>
            in (None, self\<lparr>security_dict := dict', total_cash_amt := cash',
                            trans_df := trans_df self @ [added_row]\<rparr>)
      | None \<Rightarrow> (Some NotOwned, self))"

definition sell_all_securities ::
  "string \<Rightarrow> real \<Rightarrow> nat \<Rightarrow> security_portfolio \<Rightarrow> error option \<times> security_portfolio" where
  "sell_all_securities ticker_symbol security_price trans_date self =
     (case security_dict self ticker_symbol of
        Some amount \<Rightarrow> sell_securities ticker_symbol amount security_price trans_date self
      | None \<Rightarrow> (Some NotOwned, self))"

text \<open>
  The arithmetic of the two buying methods as Python computes it when the price is a
  float, as every price read from a frame is: each quotient, product and difference is
  rounded to the nearest IEEE binary64 number, ties to even (53 significant bits; the
  magnitudes are taken in the normal range, where nothing overflows or underflows).
  An integer amount below \<open>2 ^ 53\<close> converts exactly.
\<close>

definition round_half_even :: "real \<Rightarrow> int" where
  "round_half_even y =
     (let f = \<lfloor>y\<rfloor>
      in if y - of_int f < 1 / 2 then f
         else if y - of_int f > 1 / 2 then f + 1
         else if even f then f else f + 1)"

definition float64 :: "real \<Rightarrow> real" where
  "float64 x =
     (if x = 0 then 0
      else let ulp = 2 powr (of_int \<lfloor>log 2 \<bar>x\<bar>\<rfloor> - 52)
           in of_int (round_half_even (x / ulp)) * ulp)"

definition buy_securities_float64 ::
  "string \<Rightarrow> int \<Rightarrow> real \<Rightarrow> nat \<Rightarrow> security_portfolio \<Rightarrow> error option \<times> security_portfolio" where
  "buy_securities_float64 ticker_symbol amount security_price trans_date self =
     (if float64 (of_int amount * security_price) \<le> total_cash_amt self then
        let dict' = (case security_dict self ticker_symbol of
                       Some n \<Rightarrow> (security_dict self)(ticker_symbol \<mapsto> n + amount)
                     | None \<Rightarrow> (security_dict self)(ticker_symbol \<mapsto> amount));
            cash' = float64 (total_cash_amt self - float64 (of_int amount * security_price));
            added_row = \<lparr>tr_date = trans_date, tr_security = ticker_symbol,
                         trans_type = ''Buy'', tr_security_price = security_price,
                         amt = float64 (security_price * of_int amount),
                         tr_total_cash_amt = cash'\<rparr>
        in (None, self\<lparr>security_dict := dict', total_cash_amt := cash',
                        trans_df := trans_df self @ [added_row]\<rparr>)
      else (Some InsufficientFunds, self))"

definition buy_max_securities_float64 ::
  "string \<Rightarrow> real \<Rightarrow> nat \<Rightarrow> security_portfolio \<Rightarrow> error option \<times> security_portfolio" where
  "buy_max_securities_float64 ticker_symbol security_price trans_date self =
     (if security_price = 0 then (Some ZeroDivisionError, self)
      else buy_securities_float64 ticker_symbol
             \<lfloor>float64 (total_cash_amt self / security_price)\<rfloor>
             security_price trans_date self)"

text \<open>
  A call of one of the four trading methods, and a run of such calls by a caller that
  catches the exception of a failed call and goes on: the object stays as the failed call
  left it.
\<close>

datatype call =
    Buy_securities string int real nat
  | Buy_max_securities string real nat
  | Sell_securities string int real nat
  | Sell_all_securities string real nat

fun do_call :: "call \<Rightarrow> security_portfolio \<Rightarrow> error option \<times> security_portfolio" where
  "do_call (Buy_securities t a p d) self = buy_securities t a p d self"
| "do_call (Buy_max_securities t p d) self = buy_max_securities t p d self"
| "do_call (Sell_securities t a p d) self = sell_securities t a p d self"
| "do_call (Sell_all_securities t p d) self = sell_all_securities t p d self"

fun do_calls :: "call list \<Rightarrow> security_portfolio \<Rightarrow> security_portfolio" where
  "do_calls [] self = self"
| "do_calls (c # cs) self = do_calls cs (snd (do_call c self))"

fun call_ok :: "call \<Rightarrow> bool" where
  "call_ok (Buy_securities t a p d) = (0 \<le> a \<and> 0 < p)"
| "call_ok (Buy_max_securities t p d) = (0 < p)"
| "call_ok (Sell_securities t a p d) = (0 \<le> a \<and> 0 < p)"
| "call_ok (Sell_all_securities t p d) = (0 < p)"

text \<open>The ledger invariant: no negative cash, no negative holding, no transaction that
  records a negative cash balance.\<close>

definition ledger_ok :: "security_portfolio \<Rightarrow> bool" where
  "ledger_ok self \<longleftrightarrow>
     0 \<le> total_cash_amt self
     \<and> (\<forall>t n. security_dict self t = Some n \<longrightarrow> 0 \<le> n)
     \<and> (\<forall>tr \<in> set (trans_df self). 0 \<le> tr_total_cash_amt tr)"

section \<open>The loop \<open>_run_simulation\<close> of \<open>run_simulation_df\<close>\<close>

text \<open>
  A row of the annotated frame, as \<open>iterrows\<close> yields it: column name to value.  The loop
  reads numeric columns only; reading a column the row does not have raises KeyError.
  The closure variables \<open>sec_port\<close> and \<open>bought_securities\<close> are the state \<open>sim\<close>;
  \<open>purchase_price\<close> is passed and returned as in the source.  An exception of a portfolio
  method is not caught and ends the run.
\<close>

type_synonym row = "string \<rightharpoonup> real"

record sim =
  sec_port :: security_portfolio
  bought_securities :: "string set"

record indicators =
  ma_crossovers :: "nat list option"
  bollinger_len :: "nat option"
  bollinger_std :: "real option"

definition get_ma_crossovers_price ::
  "nat \<Rightarrow> row \<Rightarrow> string \<Rightarrow> real \<Rightarrow> sim \<Rightarrow> error + sim \<times> real" where
  "get_ma_crossovers_price index row security purchase_price st =
     (let close_col_name = ''close_'' @ security;
          ma_diff_col_name = ''ma_diff_'' @ security
      in if security \<notin> bought_securities st then
           (case row ma_diff_col_name of
              None \<Rightarrow> Inl KeyError
            | Some ma_diff \<Rightarrow>
                if ma_diff > 0 \<and> get_total_cash_amt (sec_port st) > purchase_price then
                  (case row close_col_name of
                     None \<Rightarrow> Inl KeyError
                   | Some close \<Rightarrow>
                       (case buy_max_securities security close index (sec_port st) of
                          (Some e, _) \<Rightarrow> Inl e
                        | (None, port) \<Rightarrow>
                            Inr (\<lparr>sec_port = port,
                                  bought_securities = insert security (bought_securities st)\<rparr>,
                                 close)))
                else Inr (st, purchase_price))
         else
           (case row ma_diff_col_name of
              None \<Rightarrow> Inl KeyError
            | Some ma_diff \<Rightarrow>
                if ma_diff < 0 then
                  (case row close_col_name of
                     None \<Rightarrow> Inl KeyError
                   | Some close \<Rightarrow>
                       if close > purchase_price then
                         (case sell_all_securities security close index (sec_port st) of
                            (Some e, _) \<Rightarrow> Inl e
                          | (None, port) \<Rightarrow>
                              Inr (\<lparr>sec_port = port,
                                    bought_securities = bought_securities st - {security}\<rparr>,
                                   purchase_price))
                       else Inr (st, purchase_price))
                else Inr (st, purchase_price)))"

definition get_bollinger_price ::
  "nat \<Rightarrow> row \<Rightarrow> string \<Rightarrow> real \<Rightarrow> sim \<Rightarrow> error + sim \<times> real" where
  "get_bollinger_price index row security purchase_price st =
     (let close_col_name = ''close_'' @ security;
          high_col_name = ''close_'' @ security @ ''_bollinger_high'';
          low_col_name = ''close_'' @ security @ ''_bollinger_low''
      in if security \<notin> bought_securities st then
           (case row close_col_name of
              None \<Rightarrow> Inl KeyError
            | Some close \<Rightarrow>
                (case row low_col_name of
                   None \<Rightarrow> Inl KeyError
                 | Some low \<Rightarrow>
                     if close < low \<and> get_total_cash_amt (sec_port st) > purchase_price then
                       (case buy_max_securities security close index (sec_port st) of
                          (Some e, _) \<Rightarrow> Inl e
                        | (None, port) \<Rightarrow>
                            Inr (\<lparr>sec_port = port,
                                  bought_securities = insert security (bought_securities st)\<rparr>,
                                 close))
                     else Inr (st, purchase_price)))
         else
           (case row close_col_name of
              None \<Rightarrow> Inl KeyError
            | Some close \<Rightarrow>
                (case row high_col_name of
                   None \<Rightarrow> Inl KeyError
                 | Some high \<Rightarrow>
                     if close > high then
                       (case sell_all_securities security close index (sec_port st) of
                          (Some e, _) \<Rightarrow> Inl e
                        | (None, port) \<Rightarrow>
                            Inr (\<lparr>sec_port = port,
                                  bought_securities = bought_securities st - {security}\<rparr>,
                                 purchase_price))
                     else Inr (st, purchase_price))))"

text \<open>The body of the inner \<open>for security in securities\<close> loop of \<open>_run_simulation\<close>.\<close>

definition simulate_security ::
  "indicators \<Rightarrow> nat \<Rightarrow> row \<Rightarrow> string \<Rightarrow> sim \<times> real \<Rightarrow> error + sim \<times> real" where
  "simulate_security ind index row security s =
     (let crossover_col_name = ''crossover_'' @ security
      in case (if ma_crossovers ind \<noteq> None then
                 (case row crossover_col_name of
                    None \<Rightarrow> Inl KeyError
                  | Some c \<Rightarrow>
                      if c = 1 then get_ma_crossovers_price index row security (snd s) (fst s)
                      else Inr s)
               else Inr s) of
           Inl e \<Rightarrow> Inl e
         | Inr s' \<Rightarrow>
             if bollinger_len ind \<noteq> None \<and> bollinger_std ind \<noteq> None then
               get_bollinger_price index row security (snd s') (fst s')
             else Inr s')"

fun simulate_row ::
  "indicators \<Rightarrow> nat \<Rightarrow> row \<Rightarrow> string list \<Rightarrow> sim \<times> real \<Rightarrow> error + sim \<times> real" where
  "simulate_row ind index row [] s = Inr s"
| "simulate_row ind index row (security # securities) s =
     (case simulate_security ind index row security s of
        Inl e \<Rightarrow> Inl e
      | Inr s' \<Rightarrow> simulate_row ind index row securities s')"

text \<open>\<open>_run_simulation\<close>: the outer loop over \<open>security_data.iterrows()\<close>.\<close>

fun run_simulation_rows ::
  "indicators \<Rightarrow> string list \<Rightarrow> (nat \<times> row) list \<Rightarrow> sim \<times> real \<Rightarrow> error + sim \<times> real" where
  "run_simulation_rows ind securities [] s = Inr s"
| "run_simulation_rows ind securities ((index, row) # rest) s =
     (case simulate_row ind index row securities s of
        Inl e \<Rightarrow> Inl e
      | Inr s' \<Rightarrow> run_simulation_rows ind securities rest s')"

section \<open>Indicator columns\<close>

text \<open>
  A column of a frame is a list of cells, one per day; \<open>None\<close> is pandas' NaN.  The input
  price column holds numbers.  \<open>rolling(n)\<close> leaves the first \<open>n - 1\<close> days without a
  window; \<open>std\<close> is the sample standard deviation (one degree of freedom removed), which
  a single observation does not have.  Arithmetic with NaN gives NaN and a comparison
  with NaN is false.  The frames below hold the columns of one security, whose input
  column has no empty cell; \<open>dropna\<close> keeps the rows in which no derived cell is NaN,
  and each row keeps its day as index.
\<close>

definition mean :: "real list \<Rightarrow> real" where
  "mean xs = sum_list xs / real (length xs)"

definition std :: "real list \<Rightarrow> real option" where
  "std xs = (if length xs < 2 then None
             else Some (sqrt (sum_list (map (\<lambda>x. (x - mean xs)\<^sup>2) xs) / real (length xs - 1))))"

definition window :: "nat \<Rightarrow> real list \<Rightarrow> nat \<Rightarrow> real list option" where
  "window n xs i = (if n = 0 \<or> i + 1 < n then None else Some (take n (drop (i + 1 - n) xs)))"

definition rolling_mean :: "nat \<Rightarrow> real list \<Rightarrow> real option list" where
  "rolling_mean n xs = map (\<lambda>i. map_option mean (window n xs i)) [0..<length xs]"

definition rolling_std :: "nat \<Rightarrow> real list \<Rightarrow> real option list" where
  "rolling_std n xs = map (\<lambda>i. Option.bind (window n xs i) std) [0..<length xs]"

definition nan2 :: "(real \<Rightarrow> real \<Rightarrow> real) \<Rightarrow> real option \<Rightarrow> real option \<Rightarrow> real option" where
  "nan2 f a b = (case (a, b) of (Some x, Some y) \<Rightarrow> Some (f x y) | _ \<Rightarrow> None)"

definition nan_less :: "real option \<Rightarrow> real option \<Rightarrow> bool" where
  "nan_less a b = (case (a, b) of (Some x, Some y) \<Rightarrow> x < y | _ \<Rightarrow> False)"

subsection \<open>\<open>generate_ma_columns\<close>, for the columns of one security\<close>

record ma_row =
  ma_day :: nat
  ma_close :: real
  short_ma :: "real option"
  long_ma :: "real option"
  ma_diff :: "real option"
  crossover :: "real option"
  crossover_signal :: string

text \<open>
  The product of each day's difference with the previous day's, a 0 put in front for
  the first day, \<open>np.sign\<close>, then the mapping \<open>{1: 0, 0: 0, -1: 1}\<close>.
\<close>

definition crossover_col :: "real option list \<Rightarrow> real option list" where
  "crossover_col diff =
     map (\<lambda>c. map_option (\<lambda>s. if s = - 1 then 1 else 0) (map_option sgn c))
       (Some 0 # map2 (nan2 (*)) (butlast diff) (tl diff))"

text \<open>
  The frame before \<open>dropna\<close>, one row per day of the input (so a price column with
  zero rows gives a frame with zero rows).  The signal is \<open>'Buy'\<close> where the short
  average is above the long one and \<open>'Sell'\<close> elsewhere, then \<open>'N/A'\<close> on the rows
  whose crossover cell equals 0.
\<close>

definition ma_frame :: "real list \<Rightarrow> nat \<Rightarrow> nat \<Rightarrow> ma_row list" where
  "ma_frame prices s l =
     (let short = rolling_mean s prices;
          long = rolling_mean l prices;
          diff = map2 (nan2 (-)) short long;
          cross = crossover_col diff
      in map (\<lambda>d. \<lparr>ma_day = d, ma_close = prices ! d,
                    short_ma = short ! d, long_ma = long ! d,
                    ma_diff = diff ! d, crossover = cross ! d,
                    crossover_signal =
                      (if cross ! d = Some 0 then ''N/A''
                       else if nan_less (long ! d) (short ! d) then ''Buy'' else ''Sell'')\<rparr>)
           [0..<length prices])"



subsection \<open>\<open>generate_bollinger_columns\<close>, for the columns of one security\<close>

text \<open>
  The names under which the frame carries the two bands of a security, for the input
  column \<open>col_name\<close>: \<open>'{}_bollinger_high_{}'.format(col_name, security)\<close> and its low
  counterpart.  They are the fields \<open>bollinger_high\<close> and \<open>bollinger_low\<close> of the rows
  below.
\<close>

definition bollinger_high_col :: "string \<Rightarrow> string \<Rightarrow> string" where
  "bollinger_high_col col_name security = col_name @ ''_bollinger_high_'' @ security"

definition bollinger_low_col :: "string \<Rightarrow> string \<Rightarrow> string" where
  "bollinger_low_col col_name security = col_name @ ''_bollinger_low_'' @ security"

record bollinger_row =
  b_day :: nat
  b_close :: real
  bollinger_high :: "real option"
  bollinger_low :: "real option"
  bollinger_signal :: string

definition bollinger_frame :: "real list \<Rightarrow> real \<Rightarrow> nat \<Rightarrow> bollinger_row list" where
  "bollinger_frame prices bollinger_std' bollinger_len' =
     (let rolling_mean' = rolling_mean bollinger_len' prices;
          rolling_std' = rolling_std bollinger_len' prices;
          high = map2 (nan2 (+)) rolling_mean' (map (nan2 (*) (Some bollinger_std')) rolling_std');
          low = map2 (nan2 (-)) rolling_mean' (map (nan2 (*) (Some bollinger_std')) rolling_std')
      in map (\<lambda>d. \<lparr>b_day = d, b_close = prices ! d,
                    bollinger_high = high ! d, bollinger_low = low ! d,
                    bollinger_signal =
                      (if nan_less (Some (prices ! d)) (low ! d) then ''Buy''
                       else if nan_less (high ! d) (Some (prices ! d)) then ''Sell''
                       else ''N/A'')\<rparr>)
           [0..<length prices])"

definition bollinger_notna :: "bollinger_row \<Rightarrow> bool" where
  "bollinger_notna r \<longleftrightarrow> bollinger_high r \<noteq> None \<and> bollinger_low r \<noteq> None"

definition generate_bollinger_columns :: "real list \<Rightarrow> real \<Rightarrow> nat \<Rightarrow> bollinger_row list" where
  "generate_bollinger_columns prices bollinger_std' bollinger_len' =
     filter bollinger_notna (bollinger_frame prices bollinger_std' bollinger_len')"

subsection \<open>The aggregation \<open>_rsi_agg\<close> of \<open>plot_rsi\<close>\<close>

text \<open>\<open>np.diff\<close>: each element minus the one before it.\<close>

definition np_diff :: "real list \<Rightarrow> real list" where
  "np_diff xs = map2 (\<lambda>a b. b - a) (butlast xs) (tl xs)"

text \<open>
  The branch for a window without gains and without losses assigns 50 to \<open>rs\<close>; the
  \<open>return rsi\<close> that follows reads a variable no branch has assigned.
\<close>

definition rsi_agg :: "real list \<Rightarrow> error + real" where
  "rsi_agg security_array =
     (let sec_diff = np_diff security_array;
          pos_array = filter (\<lambda>x. x > 0) sec_diff;
          neg_array = filter (\<lambda>x. x < 0) sec_diff
      in if length neg_array = 0 \<and> length pos_array = 0 then Inl UnboundLocalError
         else if length neg_array = 0 \<and> length pos_array > 0 then Inr 100
         else if length pos_array = 0 \<and> length neg_array > 0 then Inr 0
         else Inr (100 - 100 / (1 + mean pos_array / (- mean neg_array))))"

section \<open>Frames and \<open>run_simulation_df\<close>\<close>

text \<open>
  A frame: the row labels (dates), the numeric columns by name and the string-valued
  signal columns by name, every column as long as the index.  The cells of a frame are
  not empty: the price frame is taken without NaN, and every annotator ends with
  \<open>dropna\<close>.  Assigning a column replaces the column of that name or appends a new one.
\<close>

record frame =
  f_index :: "nat list"
  f_columns :: "(string \<times> real list) list"
  f_labels :: "(string \<times> string list) list"

fun set_col :: "string \<Rightarrow> 'a \<Rightarrow> (string \<times> 'a) list \<Rightarrow> (string \<times> 'a) list" where
  "set_col name c [] = [(name, c)]"
| "set_col name c ((n, x) # cols) =
     (if n = name then (name, c) # cols else (n, x) # set_col name c cols)"

definition column :: "frame \<Rightarrow> string \<Rightarrow> error + real list" where
  "column df name = (case map_of (f_columns df) name of None \<Rightarrow> Inl KeyError | Some c \<Rightarrow> Inr c)"

text \<open>\<open>str.lower\<close> on ASCII names, and \<open>'{}'.format(n)\<close> for a count \<open>n\<close>.\<close>

definition lower_char :: "char \<Rightarrow> char" where
  "lower_char c =
     (case map_of (zip ''ABCDEFGHIJKLMNOPQRSTUVWXYZ'' ''abcdefghijklmnopqrstuvwxyz'') c of
        Some l \<Rightarrow> l
      | None \<Rightarrow> c)"

definition lower :: "string \<Rightarrow> string" where
  "lower s = map lower_char s"

function string_of_nat :: "nat \<Rightarrow> string" where
  "string_of_nat n =
     (if n < 10 then [''0123456789'' ! n]
      else string_of_nat (n div 10) @ [''0123456789'' ! (n mod 10)])"
  by pat_completeness auto
termination
  by (relation "measure id") auto

text \<open>
  \<open>_get_security_names\<close>: the last word of every column name, split at underscores, as
  a set.  The loops visit the set in an order Python does not fix; here it is the order
  of the columns.
\<close>

definition last_word :: "string \<Rightarrow> string" where
  "last_word w = rev (takeWhile (\<lambda>c. c \<noteq> CHR ''_'') (rev w))"

definition get_security_names :: "frame \<Rightarrow> string list" where
  "get_security_names security_df =
     remdups (map last_word (map fst (f_columns security_df) @ map fst (f_labels security_df)))"

text \<open>
  \<open>dropna\<close> after an annotator: \<open>num\<close> and \<open>lab\<close> are the numeric and the signal columns
  the annotator has assigned, the numeric ones with NaN where a window is incomplete.
  The rows in which none of them is NaN are kept, in the price columns as well.
\<close>

definition select :: "nat list \<Rightarrow> 'a list \<Rightarrow> 'a list" where
  "select ds xs = map (\<lambda>d. xs ! d) ds"

definition notna_rows :: "(string \<times> real option list) list \<Rightarrow> nat \<Rightarrow> nat list" where
  "notna_rows num n = filter (\<lambda>d. list_all (\<lambda>c. snd c ! d \<noteq> None) num) [0..<n]"

definition dropna ::
  "frame \<Rightarrow> (string \<times> real option list) list \<Rightarrow> (string \<times> string list) list \<Rightarrow> frame" where
  "dropna df num lab =
     (let keep = notna_rows num (length (f_index df))
      in \<lparr>f_index = select keep (f_index df),
          f_columns =
            fold (\<lambda>c. set_col (fst c) (map the (select keep (snd c)))) num
              (map (\<lambda>c. (fst c, select keep (snd c))) (f_columns df)),
          f_labels =
            fold (\<lambda>c. set_col (fst c) (select keep (snd c))) lab
              (map (\<lambda>c. (fst c, select keep (snd c))) (f_labels df))\<rparr>)"

text \<open>
  \<open>generate_ma_columns\<close> on a frame, for a list of securities.  The input column of
  each security is a price column of the frame; the columns of one security are those
  of \<open>ma_frame\<close>.  The averages are stored as \<open>'{}_{}d_ma_{}'.format(col_name, n, security)\<close>.
\<close>

definition ma_col :: "string \<Rightarrow> nat \<Rightarrow> string \<Rightarrow> string" where
  "ma_col col_name n security = col_name @ ''_'' @ string_of_nat n @ ''d_ma_'' @ security"

fun ma_securities ::
  "frame \<Rightarrow> string \<Rightarrow> nat \<Rightarrow> nat \<Rightarrow> string list
   \<Rightarrow> (string \<times> real option list) list \<times> (string \<times> string list) list
   \<Rightarrow> error + (string \<times> real option list) list \<times> (string \<times> string list) list" where
  "ma_securities df col_name s l [] w = Inr w"
| "ma_securities df col_name s l (security # securities) w =
     (let col_name' = lower col_name;
          security' = lower security;
          input_col = col_name' @ ''_'' @ security'
      in case column df input_col of
           Inl e \<Rightarrow> Inl e
         | Inr prices \<Rightarrow>
             let rows = ma_frame prices s l;
                 num1 = set_col (ma_col col_name' s security') (map short_ma rows) (fst w);
                 num2 = set_col (ma_col col_name' l security') (map long_ma rows) num1;
                 num3 = set_col (''ma_diff_'' @ security') (map ma_diff rows) num2;
                 num4 = set_col (''crossover_'' @ security') (map crossover rows) num3;
                 lab = set_col (''crossover_signal_'' @ security') (map crossover_signal rows)
                         (snd w)
             in ma_securities df col_name' s l securities (num4, lab))"

definition generate_ma_columns_frame ::
  "frame \<Rightarrow> string list \<Rightarrow> string \<Rightarrow> nat list \<Rightarrow> error + frame" where
  "generate_ma_columns_frame security_df securities col_name ndays =
     (if length ndays \<noteq> 2 then Inl NdaysLength
      else case ma_securities security_df col_name (ndays ! 0) (ndays ! 1) securities ([], []) of
             Inl e \<Rightarrow> Inl e
           | Inr w \<Rightarrow> Inr (dropna security_df (fst w) (snd w)))"

text \<open>\<open>generate_bollinger_columns\<close> on a frame, with the columns of \<open>bollinger_frame\<close>.\<close>

fun bollinger_securities ::
  "frame \<Rightarrow> string \<Rightarrow> real \<Rightarrow> nat \<Rightarrow> string list
   \<Rightarrow> (string \<times> real option list) list \<times> (string \<times> string list) list
   \<Rightarrow> error + (string \<times> real option list) list \<times> (string \<times> string list) list" where
  "bollinger_securities df col_name k n [] w = Inr w"
| "bollinger_securities df col_name k n (security # securities) w =
     (let col_name' = lower col_name;
          security' = lower security;
          input_col = col_name' @ ''_'' @ security'
      in case column df input_col of
           Inl e \<Rightarrow> Inl e
         | Inr prices \<Rightarrow>
             let rows = bollinger_frame prices k n;
                 num1 = set_col (bollinger_high_col col_name' security') (map bollinger_high rows)
                          (fst w);
                 num2 = set_col (bollinger_low_col col_name' security') (map bollinger_low rows)
                          num1;
                 lab = set_col (''bollinger_signal_'' @ security') (map bollinger_signal rows)
                         (snd w)
             in bollinger_securities df col_name' k n securities (num2, lab))"

definition generate_bollinger_columns_frame ::
  "frame \<Rightarrow> string list \<Rightarrow> string \<Rightarrow> real \<Rightarrow> nat \<Rightarrow> error + frame" where
  "generate_bollinger_columns_frame security_df securities col_name bollinger_std' bollinger_len' =
     (case bollinger_securities security_df col_name bollinger_std' bollinger_len' securities
             ([], []) of
        Inl e \<Rightarrow> Inl e
      | Inr w \<Rightarrow> Inr (dropna security_df (fst w) (snd w)))"

text \<open>\<open>iterrows\<close>: each row label with the row's numeric cells by column name.\<close>

definition iterrows :: "frame \<Rightarrow> (nat \<times> row) list" where
  "iterrows df =
     map (\<lambda>d. (f_index df ! d, map_of (map (\<lambda>c. (fst c, snd c ! d)) (f_columns df))))
       [0..<length (f_index df)]"

text \<open>
  \<open>_plot_simulation\<close> draws and returns nothing; what matters here is where it raises.
  With any plot option set, the close column of each security is plotted, and pandas
  refuses to plot a column without rows (TypeError).  The averages are then read as
  \<open>'close_{}_{}d_ma'.format(security, day)\<close> and the bands as
  \<open>close_<security>_bollinger_high\<close> and \<open>..._low\<close>.  Marking the transactions does not
  raise.
\<close>

fun plot_ma :: "frame \<Rightarrow> string \<Rightarrow> nat list \<Rightarrow> error option" where
  "plot_ma df security [] = None"
| "plot_ma df security (day # ndays) =
     (case column df (''close_'' @ security @ ''_'' @ string_of_nat day @ ''d_ma'') of
        Inl e \<Rightarrow> Some e
      | Inr c \<Rightarrow> plot_ma df security ndays)"

definition plot_security :: "frame \<Rightarrow> indicators \<Rightarrow> string set \<Rightarrow> string \<Rightarrow> error option" where
  "plot_security df ind plot_options security =
     (if plot_options \<noteq> {} then
        (case column df (''close_'' @ security) of
           Inl e \<Rightarrow> Some e
         | Inr c \<Rightarrow>
             if c = [] then Some TypeError
             else
               (case (case ma_crossovers ind of
                        Some ndays \<Rightarrow>
                          if ''ma'' \<in> plot_options then plot_ma df security ndays else None
                      | None \<Rightarrow> None) of
                  Some e \<Rightarrow> Some e
                | None \<Rightarrow>
                    if bollinger_std ind \<noteq> None \<and> ''bollinger'' \<in> plot_options then
                      (case column df (''close_'' @ security @ ''_bollinger_high'') of
                         Inl e \<Rightarrow> Some e
                       | Inr h \<Rightarrow>
                           (case column df (''close_'' @ security @ ''_bollinger_low'') of
                              Inl e \<Rightarrow> Some e
                            | Inr l \<Rightarrow> None))
                    else None))
      else None)"

fun plot_simulation :: "frame \<Rightarrow> indicators \<Rightarrow> string set \<Rightarrow> string list \<Rightarrow> error option" where
  "plot_simulation df ind plot_options [] = None"
| "plot_simulation df ind plot_options (security # securities) =
     (case plot_security df ind plot_options security of
        Some e \<Rightarrow> Some e
      | None \<Rightarrow> plot_simulation df ind plot_options securities)"

text \<open>
  \<open>run_simulation_df\<close>: the security names, the annotation by the configured
  indicators, a new portfolio, the loop with \<open>purchase_price\<close> starting at 0, the plots,
  and the portfolio as result.  Any exception on the way ends the call.
\<close>

definition run_simulation_df ::
  "frame \<Rightarrow> string \<Rightarrow> real \<Rightarrow> indicators \<Rightarrow> bool \<Rightarrow> string set \<Rightarrow> error + security_portfolio" where
  "run_simulation_df security_data col_name start_cash_amt' ind verbose' plot_options =
     (let securities = get_security_names security_data;
          col_name' = lower col_name
      in case (case ma_crossovers ind of
                 Some ndays \<Rightarrow> generate_ma_columns_frame security_data securities col_name' ndays
               | None \<Rightarrow> Inr security_data) of
           Inl e \<Rightarrow> Inl e
         | Inr df1 \<Rightarrow>
             (case (case (bollinger_std ind, bollinger_len ind) of
                      (Some k, Some n) \<Rightarrow>
                        generate_bollinger_columns_frame df1 securities col_name' k n
                    | _ \<Rightarrow> Inr df1) of
                Inl e \<Rightarrow> Inl e
              | Inr df2 \<Rightarrow>
                  (case run_simulation_rows ind securities (iterrows df2)
                          (\<lparr>sec_port = init start_cash_amt' verbose', bought_securities = {}\<rparr>, 0) of
                     Inl e \<Rightarrow> Inl e
                   | Inr s \<Rightarrow>
                       (case plot_simulation df2 ind plot_options securities of
                          Some e \<Rightarrow> Inl e
                        | None \<Rightarrow> Inr (sec_port (fst s))))))"

section \<open>Properties of the ledger\<close>

text \<open>
  C7.  A call of \<open>buy_securities\<close> with amount \<open>a\<close> and price \<open>p\<close> raises the
  insufficient-funds error if and only if \<open>a * p\<close> strictly exceeds the cash balance.
  On success exactly one transaction is appended and it records the cash balance after
  the trade; on error the portfolio (cash, holdings, transaction log) is unchanged.
\<close>

theorem buy_securities_raises_iff:
  "(fst (buy_securities t a p d self) = Some InsufficientFunds
      \<longleftrightarrow> of_int a * p > total_cash_amt self)
   \<and> (fst (buy_securities t a p d self) \<noteq> None
      \<longleftrightarrow> of_int a * p > total_cash_amt self)
   \<and> (fst (buy_securities t a p d self) = None \<longrightarrow>
        (\<exists>row. trans_df (snd (buy_securities t a p d self)) = trans_df self @ [row]
            \<and> trans_type row = ''Buy''
            \<and> tr_total_cash_amt row = total_cash_amt (snd (buy_securities t a p d self))
            \<and> total_cash_amt (snd (buy_securities t a p d self))
                = total_cash_amt self - of_int a * p))
   \<and> (fst (buy_securities t a p d self) \<noteq> None \<longrightarrow>
        snd (buy_securities t a p d self) = self)"
  by (simp add: buy_securities_def Let_def not_le)

theorem buy_securities_raises_iff_witness:
  "fst (buy_securities ''abc'' 3 10 7 (init 100 False)) = None
   \<and> total_cash_amt (snd (buy_securities ''abc'' 3 10 7 (init 100 False))) = 70
   \<and> length (trans_df (snd (buy_securities ''abc'' 3 10 7 (init 100 False)))) = 1
   \<and> fst (buy_securities ''abc'' 11 10 7 (init 100 False)) = Some InsufficientFunds
   \<and> snd (buy_securities ''abc'' 11 10 7 (init 100 False)) = init 100 False"
proof -
  have ok: "\<not> of_int 3 * (10::real) > total_cash_amt (init 100 False)"
    by (simp add: init_def)
  have bad: "of_int 11 * (10::real) > total_cash_amt (init 100 False)"
    by (simp add: init_def)
  note a = buy_securities_raises_iff [of "''abc''" 3 10 7 "init 100 False"]
  note b = buy_securities_raises_iff [of "''abc''" 11 10 7 "init 100 False"]
  from a ok have a1: "fst (buy_securities ''abc'' 3 10 7 (init 100 False)) = None"
    by blast
  with a obtain row where
    "trans_df (snd (buy_securities ''abc'' 3 10 7 (init 100 False)))
       = trans_df (init 100 False) @ [row]"
    and a3: "total_cash_amt (snd (buy_securities ''abc'' 3 10 7 (init 100 False)))
       = total_cash_amt (init 100 False) - of_int 3 * 10"
    by blast
  then have a2: "length (trans_df (snd (buy_securities ''abc'' 3 10 7 (init 100 False)))) = 1"
    by (simp add: init_def)
  from a3 have a4: "total_cash_amt (snd (buy_securities ''abc'' 3 10 7 (init 100 False))) = 70"
    by (simp add: init_def)
  from b bad have "fst (buy_securities ''abc'' 11 10 7 (init 100 False)) = Some InsufficientFunds"
    and "snd (buy_securities ''abc'' 11 10 7 (init 100 False)) = init 100 False"
    by simp_all
  with a1 a2 a4 show ?thesis by simp
qed

subsection \<open>Arithmetic of the floor and preservation of the ledger invariant\<close>

lemma floor_mult_le: "0 < (P::real) \<Longrightarrow> of_int \<lfloor>C / P\<rfloor> * P \<le> C"
  by (metis of_int_floor_le pos_le_divide_eq)

lemma floor_mult_gt: "0 < (P::real) \<Longrightarrow> C - of_int \<lfloor>C / P\<rfloor> * P < P"
proof -
  assume P: "0 < P"
  have "C / P < of_int \<lfloor>C / P\<rfloor> + 1" by linarith
  then have "C < (of_int \<lfloor>C / P\<rfloor> + 1) * P" using P pos_divide_less_eq by blast
  then show ?thesis by (simp add: algebra_simps)
qed

lemma ledger_ok_buy:
  assumes "ledger_ok self" and "0 \<le> a"
  shows "ledger_ok (snd (buy_securities t a p d self))"
  using assms
  by (auto simp add: ledger_ok_def buy_securities_def Let_def split: option.splits)

lemma ledger_ok_buy_max:
  assumes "ledger_ok self" and "0 < p"
  shows "ledger_ok (snd (buy_max_securities t p d self))"
proof -
  have "0 \<le> total_cash_amt self / p" using assms by (simp add: ledger_ok_def)
  then have "0 \<le> \<lfloor>total_cash_amt self / p\<rfloor>" by simp
  then show ?thesis using assms by (simp add: buy_max_securities_def ledger_ok_buy)
qed

lemma ledger_ok_sell:
  assumes "ledger_ok self" and "0 \<le> a" and "0 < p"
  shows "ledger_ok (snd (sell_securities t a p d self))"
  using assms
  by (auto simp add: ledger_ok_def sell_securities_def Let_def split: option.splits)

lemma ledger_ok_sell_all:
  assumes "ledger_ok self" and "0 < p"
  shows "ledger_ok (snd (sell_all_securities t p d self))"
proof (cases "security_dict self t")
  case None
  then show ?thesis using assms by (simp add: sell_all_securities_def)
next
  case (Some n)
  then have "0 \<le> n" using assms by (simp add: ledger_ok_def)
  then show ?thesis using Some assms by (simp add: sell_all_securities_def ledger_ok_sell)
qed

lemma ledger_ok_do_call: "ledger_ok self \<Longrightarrow> call_ok c \<Longrightarrow> ledger_ok (snd (do_call c self))"
  by (cases c) (simp_all add: ledger_ok_buy ledger_ok_buy_max ledger_ok_sell ledger_ok_sell_all)

lemma ledger_ok_do_calls: "ledger_ok self \<Longrightarrow> list_all call_ok cs \<Longrightarrow> ledger_ok (do_calls cs self)"
  by (induction cs arbitrary: self) (simp_all add: ledger_ok_do_call)

lemma ledger_ok_init: "0 \<le> c \<Longrightarrow> ledger_ok (init c v)"
  by (simp add: ledger_ok_def init_def)

text \<open>
  C8.  \<open>sell_securities\<close> with amount \<open>a\<close> and ticker \<open>t\<close> raises if and only if \<open>t\<close> is
  not a key of the holdings or \<open>a\<close> strictly exceeds the held count.  On success the
  holding decreases by \<open>a\<close>, the cash grows by \<open>a * price\<close> and exactly one transaction
  is appended; on error the portfolio is unchanged.
\<close>

theorem sell_securities_raises_iff:
  "(fst (sell_securities t a p d self) \<noteq> None
      \<longleftrightarrow> security_dict self t = None \<or> (\<exists>n. security_dict self t = Some n \<and> a > n))
   \<and> (fst (sell_securities t a p d self) = None \<longrightarrow>
        (\<exists>n row. security_dict self t = Some n
            \<and> security_dict (snd (sell_securities t a p d self))
                = (security_dict self)(t \<mapsto> n - a)
            \<and> total_cash_amt (snd (sell_securities t a p d self))
                = total_cash_amt self + of_int a * p
            \<and> trans_df (snd (sell_securities t a p d self)) = trans_df self @ [row]
            \<and> trans_type row = ''Sell''
            \<and> tr_total_cash_amt row = total_cash_amt (snd (sell_securities t a p d self))))
   \<and> (fst (sell_securities t a p d self) \<noteq> None \<longrightarrow>
        snd (sell_securities t a p d self) = self)"
  by (auto simp add: sell_securities_def Let_def split: option.splits)

theorem sell_securities_raises_iff_witness:
  "fst (sell_securities ''abc'' 2 40 7
          \<lparr>start_cash_amt = 100, total_cash_amt = 10, security_dict = [''abc'' \<mapsto> 3],
           verbose = False, trans_df = []\<rparr>) = None
   \<and> total_cash_amt (snd (sell_securities ''abc'' 2 40 7
          \<lparr>start_cash_amt = 100, total_cash_amt = 10, security_dict = [''abc'' \<mapsto> 3],
           verbose = False, trans_df = []\<rparr>)) = 90
   \<and> fst (sell_securities ''abc'' 5 40 7
          \<lparr>start_cash_amt = 100, total_cash_amt = 10, security_dict = [''abc'' \<mapsto> 3],
           verbose = False, trans_df = []\<rparr>) \<noteq> None
   \<and> snd (sell_securities ''abc'' 5 40 7
          \<lparr>start_cash_amt = 100, total_cash_amt = 10, security_dict = [''abc'' \<mapsto> 3],
           verbose = False, trans_df = []\<rparr>)
       = \<lparr>start_cash_amt = 100, total_cash_amt = 10, security_dict = [''abc'' \<mapsto> 3],
           verbose = False, trans_df = []\<rparr>
   \<and> fst (sell_securities ''xyz'' 1 40 7
          \<lparr>start_cash_amt = 100, total_cash_amt = 10, security_dict = [''abc'' \<mapsto> 3],
           verbose = False, trans_df = []\<rparr>) \<noteq> None"
  using sell_securities_raises_iff [of "''abc''" 2 40 7
          "\<lparr>start_cash_amt = 100, total_cash_amt = 10, security_dict = [''abc'' \<mapsto> 3],
           verbose = False, trans_df = []\<rparr>"]
        sell_securities_raises_iff [of "''abc''" 5 40 7
          "\<lparr>start_cash_amt = 100, total_cash_amt = 10, security_dict = [''abc'' \<mapsto> 3],
           verbose = False, trans_df = []\<rparr>"]
        sell_securities_raises_iff [of "''xyz''" 1 40 7
          "\<lparr>start_cash_amt = 100, total_cash_amt = 10, security_dict = [''abc'' \<mapsto> 3],
           verbose = False, trans_df = []\<rparr>"]
  by (simp add: sell_securities_def)

text \<open>
  Read in exact arithmetic, \<open>buy_max_securities\<close> with cash \<open>C \<ge> 0\<close> and price
  \<open>P > 0\<close> buys \<open>floor (C / P)\<close> shares and leaves \<open>C - floor (C / P) * P\<close>, less than \<open>P\<close>.
\<close>

lemma buy_max_securities_exact:
  assumes "0 \<le> total_cash_amt self" and "0 < P"
  shows "fst (buy_max_securities t P d self) = None
    \<and> security_dict (snd (buy_max_securities t P d self)) t
        = Some ((case security_dict self t of None \<Rightarrow> 0 | Some n \<Rightarrow> n)
                 + \<lfloor>total_cash_amt self / P\<rfloor>)
    \<and> trans_df (snd (buy_max_securities t P d self))
        = trans_df self @ [\<lparr>tr_date = d, tr_security = t, trans_type = ''Buy'',
             tr_security_price = P, amt = P * of_int \<lfloor>total_cash_amt self / P\<rfloor>,
             tr_total_cash_amt = total_cash_amt self - of_int \<lfloor>total_cash_amt self / P\<rfloor> * P\<rparr>]
    \<and> total_cash_amt (snd (buy_max_securities t P d self))
        = total_cash_amt self - of_int \<lfloor>total_cash_amt self / P\<rfloor> * P
    \<and> 0 \<le> total_cash_amt (snd (buy_max_securities t P d self))
    \<and> total_cash_amt (snd (buy_max_securities t P d self)) < P"
  using assms floor_mult_le [of P "total_cash_amt self"] floor_mult_gt [of P "total_cash_amt self"]
  by (auto simp add: buy_max_securities_def buy_securities_def Let_def split: option.splits)

text \<open>
  C10.  With cash \<open>C\<close> and a price \<open>P > C > 0\<close>, \<open>buy_max_securities\<close> does not raise: it
  performs a Buy of zero shares.  The cash is unchanged, the ticker gets a holdings
  entry of 0 shares (or keeps the entry it has), and one Buy transaction with amount 0
  is appended.
\<close>

theorem buy_max_securities_zero_shares:
  assumes "0 \<le> total_cash_amt self" and "0 < total_cash_amt self" and "total_cash_amt self < P"
  shows "buy_max_securities t P d self =
     (None,
      self\<lparr>security_dict :=
             (security_dict self)(t \<mapsto> (case security_dict self t of None \<Rightarrow> 0 | Some n \<Rightarrow> n)),
           total_cash_amt := total_cash_amt self,
           trans_df := trans_df self @
             [\<lparr>tr_date = d, tr_security = t, trans_type = ''Buy'', tr_security_price = P,
               amt = 0, tr_total_cash_amt = total_cash_amt self\<rparr>]\<rparr>)"
proof -
  have "\<lfloor>total_cash_amt self / P\<rfloor> = 0" using assms by (simp add: floor_eq_iff)
  then show ?thesis using assms
    by (auto simp add: buy_max_securities_def buy_securities_def Let_def split: option.splits)
qed

theorem buy_max_securities_zero_shares_witness:
  "0 \<le> total_cash_amt (init 5 False) \<and> 0 < total_cash_amt (init 5 False)
   \<and> total_cash_amt (init 5 False) < 7
   \<and> buy_max_securities ''abc'' 7 2 (init 5 False) =
       (None, \<lparr>start_cash_amt = 5, total_cash_amt = 5, security_dict = [''abc'' \<mapsto> 0],
               verbose = False,
               trans_df = [\<lparr>tr_date = 2, tr_security = ''abc'', trans_type = ''Buy'',
                             tr_security_price = 7, amt = 0, tr_total_cash_amt = 5\<rparr>]\<rparr>)"
proof -
  have h1: "0 \<le> total_cash_amt (init 5 False)" by (simp add: init_def)
  have h2: "0 < total_cash_amt (init 5 False)" by (simp add: init_def)
  have h3: "total_cash_amt (init 5 False) < 7" by (simp add: init_def)
  show ?thesis
    using h1 h2 h3 buy_max_securities_zero_shares [OF h1 h2 h3, of "''abc''" 2]
    by (simp add: init_def)
qed

text \<open>
  C1.  A portfolio is created with a starting cash amount that is not negative, and any
  sequence of calls of the four trading methods follows, each with a positive price and
  an amount that is not negative, a failed call leaving the object as it was.  Then at
  every point of the sequence the cash balance is at least 0, every share count in
  \<open>security_dict\<close> is at least 0, and so is the cash balance recorded by every
  transaction of the log.
\<close>

theorem cash_and_shares_never_negative:
  assumes "0 \<le> c" and "list_all call_ok cs"
  shows "0 \<le> total_cash_amt (do_calls (take k cs) (init c v))
    \<and> (\<forall>t n. security_dict (do_calls (take k cs) (init c v)) t = Some n \<longrightarrow> 0 \<le> n)
    \<and> (\<forall>tr \<in> set (trans_df (do_calls (take k cs) (init c v))). 0 \<le> tr_total_cash_amt tr)"
proof -
  have "list_all call_ok (take k cs)"
    using assms(2) by (auto simp add: list_all_iff dest: in_set_takeD)
  then have "ledger_ok (do_calls (take k cs) (init c v))"
    using assms(1) by (simp add: ledger_ok_do_calls ledger_ok_init)
  then show ?thesis unfolding ledger_ok_def by blast
qed

theorem cash_and_shares_never_negative_witness:
  "(0::real) \<le> 100
   \<and> list_all call_ok [Buy_max_securities ''abc'' 30 1, Sell_securities ''abc'' 5 10 2,
                        Sell_all_securities ''abc'' 40 3]
   \<and> 0 \<le> total_cash_amt (do_calls (take 3 [Buy_max_securities ''abc'' 30 1,
              Sell_securities ''abc'' 5 10 2, Sell_all_securities ''abc'' 40 3]) (init 100 False))
   \<and> total_cash_amt (do_calls (take 3 [Buy_max_securities ''abc'' 30 1,
              Sell_securities ''abc'' 5 10 2, Sell_all_securities ''abc'' 40 3]) (init 100 False)) = 130
   \<and> security_dict (do_calls (take 3 [Buy_max_securities ''abc'' 30 1,
              Sell_securities ''abc'' 5 10 2, Sell_all_securities ''abc'' 40 3]) (init 100 False)) ''abc''
       = Some 0"
proof -
  have h1: "(0::real) \<le> 100" by simp
  have h2: "list_all call_ok [Buy_max_securities ''abc'' 30 1, Sell_securities ''abc'' 5 10 2,
                        Sell_all_securities ''abc'' 40 3]" by simp
  note t = cash_and_shares_never_negative [OF h1 h2, of 3 False]
  have e: "do_calls (take 3 [Buy_max_securities ''abc'' 30 1,
              Sell_securities ''abc'' 5 10 2, Sell_all_securities ''abc'' 40 3]) (init 100 False)
       = \<lparr>start_cash_amt = 100, total_cash_amt = 130, security_dict = [''abc'' \<mapsto> 0],
          verbose = False,
          trans_df = [\<lparr>tr_date = 1, tr_security = ''abc'', trans_type = ''Buy'',
                        tr_security_price = 30, amt = 90, tr_total_cash_amt = 10\<rparr>,
                      \<lparr>tr_date = 3, tr_security = ''abc'', trans_type = ''Sell'',
                        tr_security_price = 40, amt = 120, tr_total_cash_amt = 130\<rparr>]\<rparr>"
    by (simp add: init_def buy_max_securities_def buy_securities_def sell_securities_def
        sell_all_securities_def Let_def)
  from t have c1: "0 \<le> total_cash_amt (do_calls (take 3 [Buy_max_securities ''abc'' 30 1,
              Sell_securities ''abc'' 5 10 2, Sell_all_securities ''abc'' 40 3]) (init 100 False))"
    by (rule conjunct1)
  have c2: "total_cash_amt (do_calls (take 3 [Buy_max_securities ''abc'' 30 1,
              Sell_securities ''abc'' 5 10 2, Sell_all_securities ''abc'' 40 3]) (init 100 False)) = 130"
    by (simp only: e security_portfolio.simps)
  have c3: "security_dict (do_calls (take 3 [Buy_max_securities ''abc'' 30 1,
              Sell_securities ''abc'' 5 10 2, Sell_all_securities ''abc'' 40 3]) (init 100 False)) ''abc''
       = Some 0"
    by (simp only: e security_portfolio.simps fun_upd_same)
  from h1 h2 c1 c2 c3 show ?thesis by (intro conjI)
qed

subsection \<open>Buying the maximum in binary64 arithmetic\<close>

lemma float64_binade:
  assumes "0 < x" and "2 powr of_int k \<le> x" and "x < 2 powr (of_int k + 1)"
  shows "float64 x =
    of_int (round_half_even (x / 2 powr (of_int k - 52))) * 2 powr (of_int k - 52)"
proof -
  have "\<lfloor>log 2 x\<rfloor> = k"
    using assms by (simp add: floor_log_eq_powr_iff)
  with assms(1) show ?thesis by (simp add: float64_def Let_def)
qed

text \<open>The doubles written \<open>1.7\<close> and \<open>0.1\<close>, their rounded quotient, and the rounded
  products of \<open>0.1\<close> with 17 and with 16.\<close>

lemma float64_1_7: "float64 (17 / 10) = 7656119366529843 / 4503599627370496"
  using float64_binade [of "17 / 10" 0]
  by (simp add: round_half_even_def powr_minus)

lemma float64_0_1: "float64 (1 / 10) = 3602879701896397 / 36028797018963968"
  using float64_binade [of "1 / 10" "- 4"]
  by (simp add: round_half_even_def powr_minus)

lemma float64_quotient:
  "float64 ((7656119366529843 / 4503599627370496) / (3602879701896397 / 36028797018963968)) = 17"
  using float64_binade
    [of "(7656119366529843 / 4503599627370496) / (3602879701896397 / 36028797018963968)" 4]
  by (simp add: round_half_even_def powr_minus)

lemma float64_product_17:
  "float64 (17 * (3602879701896397 / 36028797018963968)) = 7656119366529844 / 4503599627370496"
  using float64_binade [of "17 * (3602879701896397 / 36028797018963968)" 0]
  by (simp add: round_half_even_def powr_minus)

lemma float64_product_16:
  "float64 (16 * (3602879701896397 / 36028797018963968)) = 7205759403792794 / 4503599627370496"
  using float64_binade [of "16 * (3602879701896397 / 36028797018963968)" 0]
  by (simp add: round_half_even_def powr_minus)

text \<open>
  C2.  With the cash \<open>1.7\<close> and the price \<open>0.1\<close>, both doubles, \<open>buy_max_securities\<close> does
  not buy \<open>floor (C / P)\<close> shares: the quotient rounds to 17.0, the product \<open>17 * 0.1\<close>
  rounds to \<open>1.7000000000000002\<close>, which exceeds the cash, and the call raises the
  insufficient-funds error with the portfolio unchanged.  The floor of the quotient of
  the two numbers is 16, and \<open>buy_securities\<close> accepts 16 shares at that price.
\<close>

theorem buy_max_securities_float64_raises:
  "buy_max_securities_float64 ''abc'' (float64 (1 / 10)) 7 (init (float64 (17 / 10)) False)
     = (Some InsufficientFunds, init (float64 (17 / 10)) False)
   \<and> \<lfloor>float64 (total_cash_amt (init (float64 (17 / 10)) False) / float64 (1 / 10))\<rfloor> = 17
   \<and> \<lfloor>total_cash_amt (init (float64 (17 / 10)) False) / float64 (1 / 10)\<rfloor> = 16
   \<and> fst (buy_securities_float64 ''abc'' 16 (float64 (1 / 10)) 7
              (init (float64 (17 / 10)) False)) = None"
proof (intro conjI)
  let ?cash = "7656119366529843 / 4503599627370496 :: real"
  let ?price = "3602879701896397 / 36028797018963968 :: real"
  have c: "total_cash_amt (init (float64 (17 / 10)) False) = ?cash"
    by (simp add: init_def float64_1_7)
  have q: "float64 (total_cash_amt (init (float64 (17 / 10)) False) / float64 (1 / 10)) = 17"
    by (simp only: c float64_0_1 float64_quotient)
  then show q': "\<lfloor>float64 (total_cash_amt (init (float64 (17 / 10)) False) / float64 (1 / 10))\<rfloor> = 17"
    by simp
  have p: "float64 (1 / 10) \<noteq> 0" by (simp add: float64_0_1)
  have p17: "float64 (of_int 17 * float64 (1 / 10)) = 7656119366529844 / 4503599627370496"
    by (simp only: float64_0_1 of_int_numeral float64_product_17)
  have p16: "float64 (of_int 16 * float64 (1 / 10)) = 7205759403792794 / 4503599627370496"
    by (simp only: float64_0_1 of_int_numeral float64_product_16)
  have n17: "\<not> float64 (of_int 17 * float64 (1 / 10))
      \<le> total_cash_amt (init (float64 (17 / 10)) False)"
    unfolding p17 c by simp
  have y16: "float64 (of_int 16 * float64 (1 / 10))
      \<le> total_cash_amt (init (float64 (17 / 10)) False)"
    unfolding p16 c by simp
  from n17 have "buy_securities_float64 ''abc'' 17 (float64 (1 / 10)) 7
      (init (float64 (17 / 10)) False) = (Some InsufficientFunds, init (float64 (17 / 10)) False)"
    by (simp only: buy_securities_float64_def if_False)
  with q' p show "buy_max_securities_float64 ''abc'' (float64 (1 / 10)) 7
      (init (float64 (17 / 10)) False) = (Some InsufficientFunds, init (float64 (17 / 10)) False)"
    by (simp only: buy_max_securities_float64_def if_False)
  show "\<lfloor>total_cash_amt (init (float64 (17 / 10)) False) / float64 (1 / 10)\<rfloor> = 16"
    unfolding c float64_0_1 by simp
  from y16 show "fst (buy_securities_float64 ''abc'' 16 (float64 (1 / 10)) 7
              (init (float64 (17 / 10)) False)) = None"
    by (simp only: buy_securities_float64_def if_True Let_def fst_conv)
qed

subsection \<open>What \<open>_rsi_agg\<close> returns\<close>

lemma length_np_diff: "length (np_diff w) = length w - 1"
  by (simp add: np_diff_def)

lemma np_diff_nth: "i < length w - 1 \<Longrightarrow> np_diff w ! i = w ! Suc i - w ! i"
  by (simp add: np_diff_def nth_butlast nth_tl)

lemma np_diff_increasing:
  assumes "sorted_wrt (<) w" and "x \<in> set (np_diff w)"
  shows "0 < x"
proof -
  from assms(2) obtain i where i: "i < length w - 1" and x: "x = np_diff w ! i"
    by (auto simp add: in_set_conv_nth length_np_diff)
  from i assms(1) have "w ! i < w ! Suc i"
    by (simp add: sorted_wrt_nth_less)
  with i x show ?thesis by (simp add: np_diff_nth)
qed

lemma np_diff_decreasing:
  assumes "sorted_wrt (>) w" and "x \<in> set (np_diff w)"
  shows "x < 0"
proof -
  from assms(2) obtain i where i: "i < length w - 1" and x: "x = np_diff w ! i"
    by (auto simp add: in_set_conv_nth length_np_diff)
  from i have "i < Suc i" and "Suc i < length w" by simp_all
  with assms(1) have "w ! i > w ! Suc i"
    by (rule sorted_wrt_nth_less [where P = "(>)"])
  with i x show ?thesis by (simp add: np_diff_nth)
qed

lemma rsi_agg_increasing:
  assumes "sorted_wrt (<) w" and "2 \<le> length w"
  shows "rsi_agg w = Inr 100"
proof -
  have pos: "filter (\<lambda>x. x > 0) (np_diff w) = np_diff w"
    using np_diff_increasing [OF assms(1)] by (simp add: filter_id_conv)
  have neg: "filter (\<lambda>x. x < 0) (np_diff w) = []"
    using np_diff_increasing [OF assms(1)] by (auto simp add: filter_empty_conv dest: less_asym)
  have "length (np_diff w) > 0" using assms(2) by (simp add: length_np_diff)
  then show ?thesis by (simp add: rsi_agg_def Let_def pos neg)
qed

lemma rsi_agg_decreasing:
  assumes "sorted_wrt (>) w" and "2 \<le> length w"
  shows "rsi_agg w = Inr 0"
proof -
  have neg: "filter (\<lambda>x. x < 0) (np_diff w) = np_diff w"
    using np_diff_decreasing [OF assms(1)] by (simp add: filter_id_conv)
  have pos: "filter (\<lambda>x. x > 0) (np_diff w) = []"
    using np_diff_decreasing [OF assms(1)] by (auto simp add: filter_empty_conv dest: less_asym)
  have "length (np_diff w) > 0" using assms(2) by (simp add: length_np_diff)
  then show ?thesis by (simp add: rsi_agg_def Let_def pos neg)
qed

lemma rsi_agg_constant:
  assumes "\<forall>x \<in> set w. x = c"
  shows "rsi_agg w = Inl UnboundLocalError"
proof -
  have z: "x = 0" if "x \<in> set (np_diff w)" for x
  proof -
    from that obtain i where i: "i < length w - 1" and x: "x = np_diff w ! i"
      by (auto simp add: in_set_conv_nth length_np_diff)
    from i have "w ! i \<in> set w" and "w ! Suc i \<in> set w" by simp_all
    with assms have "w ! i = c" and "w ! Suc i = c" by blast+
    with i x show ?thesis by (simp add: np_diff_nth)
  qed
  have "filter (\<lambda>x. x > 0) (np_diff w) = []" and "filter (\<lambda>x. x < 0) (np_diff w) = []"
    using z by (auto simp add: filter_empty_conv)
  then show ?thesis by (simp add: rsi_agg_def Let_def)
qed

lemma rsi_agg_mixed:
  assumes "filter (\<lambda>x. x > 0) (np_diff w) \<noteq> []" and "filter (\<lambda>x. x < 0) (np_diff w) \<noteq> []"
  shows "rsi_agg w = Inr (100 - 100 / (1 + mean (filter (\<lambda>x. x > 0) (np_diff w))
                                           / (- mean (filter (\<lambda>x. x < 0) (np_diff w)))))"
  using assms by (simp add: rsi_agg_def Let_def)

text \<open>
  C4.  On a constant window (here three equal prices) \<open>_rsi_agg\<close> does not return 50:
  it raises, because the branch for "no gains and no losses" assigns \<open>rs\<close> and the
  function returns \<open>rsi\<close>.
\<close>

theorem rsi_agg_flat_window: "rsi_agg [5, 5, 5] = Inl UnboundLocalError"
  by (simp add: rsi_agg_def np_diff_def)

section \<open>Properties of the indicators and of the loop\<close>

subsection \<open>Columns of the indicator frames, day by day\<close>

lemma length_rolling_mean: "length (rolling_mean n xs) = length xs"
  by (simp add: rolling_mean_def)

lemma length_rolling_std: "length (rolling_std n xs) = length xs"
  by (simp add: rolling_std_def)

lemma rolling_mean_nth: "d < length xs \<Longrightarrow> rolling_mean n xs ! d = map_option mean (window n xs d)"
  by (simp add: rolling_mean_def)

lemma rolling_std_nth: "d < length xs \<Longrightarrow> rolling_std n xs ! d = Option.bind (window n xs d) std"
  by (simp add: rolling_std_def)

lemma window_Some:
  assumes "window n xs d = Some w" and "d < length xs"
  shows "n \<le> d + 1" and "w = take n (drop (d + 1 - n) xs)" and "length w = n"
  using assms by (auto simp add: window_def split: if_splits)






















lemma std_nonneg:
  assumes "std w = Some sd"
  shows "0 \<le> sd"
proof -
  have "0 \<le> sum_list (map (\<lambda>x. (x - mean w)\<^sup>2) w)"
    by (rule sum_list_nonneg) auto
  then have "0 \<le> sum_list (map (\<lambda>x. (x - mean w)\<^sup>2) w) / real (length w - 1)"
    by (rule divide_nonneg_nonneg) simp
  then have "0 \<le> sqrt (sum_list (map (\<lambda>x. (x - mean w)\<^sup>2) w) / real (length w - 1))"
    by (rule real_sqrt_ge_zero)
  with assms show ?thesis
    by (simp only: std_def split: if_splits) auto
qed

lemma bollinger_frame_nth:
  assumes "d < length prices"
  shows "bollinger_frame prices k L ! d =
     \<lparr>b_day = d, b_close = prices ! d,
      bollinger_high = nan2 (+) (rolling_mean L prices ! d) (nan2 (*) (Some k) (rolling_std L prices ! d)),
      bollinger_low = nan2 (-) (rolling_mean L prices ! d) (nan2 (*) (Some k) (rolling_std L prices ! d)),
      bollinger_signal =
        (if nan_less (Some (prices ! d))
              (nan2 (-) (rolling_mean L prices ! d) (nan2 (*) (Some k) (rolling_std L prices ! d)))
         then ''Buy''
         else if nan_less
              (nan2 (+) (rolling_mean L prices ! d) (nan2 (*) (Some k) (rolling_std L prices ! d)))
              (Some (prices ! d))
         then ''Sell'' else ''N/A'')\<rparr>"
  using assms by (simp add: bollinger_frame_def Let_def length_rolling_mean length_rolling_std)

lemma in_bollinger_frame:
  assumes "r \<in> set (bollinger_frame prices k L)"
  shows "\<exists>d < length prices. r = bollinger_frame prices k L ! d \<and> b_day r = d"
proof -
  have len: "length (bollinger_frame prices k L) = length prices"
    by (simp add: bollinger_frame_def Let_def)
  from assms obtain d where d: "d < length (bollinger_frame prices k L)"
    "r = bollinger_frame prices k L ! d"
    by (auto simp add: in_set_conv_nth)
  with len have "d < length prices" by simp
  with d show ?thesis by (auto simp add: bollinger_frame_nth)
qed

text \<open>
  C5 (as the code has it).  For every price series, length \<open>L\<close> and multiplier \<open>k\<close>, each
  row that \<open>generate_bollinger_columns\<close> returns has its high band at the mean plus
  \<open>k\<close> times the sample standard deviation of the \<open>L\<close> prices that end with the row's
  day, and its low band at the mean minus \<open>k\<close> times that deviation.  The signal is
  \<open>'Buy'\<close> exactly when the price is strictly below the low band, \<open>'Sell'\<close> exactly when
  it is strictly above the high band and not strictly below the low band, and \<open>'N/A'\<close>
  otherwise.  For \<open>k \<ge> 0\<close> the signal is \<open>'Sell'\<close> exactly when the price is strictly
  above the high band, and a price equal to either band gives \<open>'N/A'\<close>.
\<close>

theorem generate_bollinger_columns_bands:
  assumes r: "r \<in> set (generate_bollinger_columns prices k L)"
  shows "\<exists>w sd. b_day r < length prices \<and> b_close r = prices ! b_day r
      \<and> L \<le> b_day r + 1 \<and> w = take L (drop (b_day r + 1 - L) prices) \<and> length w = L
      \<and> std w = Some sd
      \<and> bollinger_high r = Some (mean w + k * sd)
      \<and> bollinger_low r = Some (mean w - k * sd)
      \<and> (bollinger_signal r = ''Buy'' \<longleftrightarrow> b_close r < mean w - k * sd)
      \<and> (bollinger_signal r = ''Sell'' \<longleftrightarrow>
            b_close r > mean w + k * sd \<and> \<not> b_close r < mean w - k * sd)
      \<and> (bollinger_signal r = ''N/A'' \<longleftrightarrow>
            \<not> b_close r > mean w + k * sd \<and> \<not> b_close r < mean w - k * sd)
      \<and> (0 \<le> k \<longrightarrow>
            (bollinger_signal r = ''Sell'' \<longleftrightarrow> b_close r > mean w + k * sd)
            \<and> (b_close r = mean w + k * sd \<or> b_close r = mean w - k * sd
                 \<longrightarrow> bollinger_signal r = ''N/A''))"
proof -
  from r have rin: "r \<in> set (bollinger_frame prices k L)" and nn: "bollinger_notna r"
    by (auto simp add: generate_bollinger_columns_def)
  from in_bollinger_frame [OF rin] obtain d where d: "d < length prices"
    and rd: "r = bollinger_frame prices k L ! d" and day: "b_day r = d" by blast
  from nn rd d have "nan2 (+) (rolling_mean L prices ! d)
      (nan2 (*) (Some k) (rolling_std L prices ! d)) \<noteq> None"
    by (simp add: bollinger_notna_def bollinger_frame_nth)
  then obtain m sd where m: "rolling_mean L prices ! d = Some m"
    and sd: "rolling_std L prices ! d = Some sd"
    by (auto simp add: nan2_def split: option.splits)
  from m d obtain w where w: "window L prices d = Some w" and mw: "m = mean w"
    by (auto simp add: rolling_mean_nth)
  from sd d w have sw: "std w = Some sd" by (simp add: rolling_std_nth)
  note ws = window_Some [OF w d]
  have hi: "bollinger_high r = Some (mean w + k * sd)"
    and lo: "bollinger_low r = Some (mean w - k * sd)"
    and sg: "bollinger_signal r =
        (if prices ! d < mean w - k * sd then ''Buy''
         else if mean w + k * sd < prices ! d then ''Sell'' else ''N/A'')"
    and cl: "b_close r = prices ! d"
    using rd d m sd mw by (simp_all add: bollinger_frame_nth nan2_def nan_less_def)
  have "0 \<le> sd" using sw by (rule std_nonneg)
  then have ord: "0 \<le> k \<Longrightarrow> mean w - k * sd \<le> mean w + k * sd"
    by (simp add: add_increasing2)
  have s1: "bollinger_signal r = ''Buy'' \<longleftrightarrow> b_close r < mean w - k * sd"
    using sg cl by simp
  have s2: "bollinger_signal r = ''Sell'' \<longleftrightarrow>
            b_close r > mean w + k * sd \<and> \<not> b_close r < mean w - k * sd"
    using sg cl by simp
  have s3: "bollinger_signal r = ''N/A'' \<longleftrightarrow>
            \<not> b_close r > mean w + k * sd \<and> \<not> b_close r < mean w - k * sd"
    using sg cl by simp
  have s4: "0 \<le> k \<longrightarrow>
            (bollinger_signal r = ''Sell'' \<longleftrightarrow> b_close r > mean w + k * sd)
            \<and> (b_close r = mean w + k * sd \<or> b_close r = mean w - k * sd
                 \<longrightarrow> bollinger_signal r = ''N/A'')"
    using s2 s3 ord by auto
  from d day cl ws sw hi lo s1 s2 s3 s4 show ?thesis by blast
qed

theorem generate_bollinger_columns_bands_witness:
  "\<lparr>b_day = 2, b_close = 4, bollinger_high = Some 3, bollinger_low = Some 1,
     bollinger_signal = ''Sell''\<rparr> \<in> set (generate_bollinger_columns [0, 2, 4] (1 / 2) 3)
   \<and> (\<exists>w sd. w = take 3 (drop (2 + 1 - 3) [0, 2, 4]) \<and> std w = Some sd
         \<and> Some (3::real) = Some (mean w + 1 / 2 * sd)
         \<and> Some (1::real) = Some (mean w - 1 / 2 * sd))
   \<and> (4::real) > 3"
proof -
  have e: "generate_bollinger_columns [0, 2, 4] (1 / 2) 3 =
       [\<lparr>b_day = 2, b_close = 4, bollinger_high = Some 3, bollinger_low = Some 1,
          bollinger_signal = ''Sell''\<rparr>]"
    by (simp add: generate_bollinger_columns_def bollinger_frame_def rolling_mean_def
        rolling_std_def window_def mean_def std_def nan2_def nan_less_def bollinger_notna_def
        Let_def upt_rec [of _ "numeral _"] upt_rec [of _ "Suc _"])
  have hr: "\<lparr>b_day = 2, b_close = 4, bollinger_high = Some 3, bollinger_low = Some 1,
     bollinger_signal = ''Sell''\<rparr> \<in> set (generate_bollinger_columns [0, 2, 4] (1 / 2) 3)"
    by (simp only: e) simp
  from generate_bollinger_columns_bands [OF hr]
  have c: "\<exists>w sd. w = take 3 (drop (2 + 1 - 3) [0, 2, 4]) \<and> std w = Some sd
         \<and> Some (3::real) = Some (mean w + 1 / 2 * sd)
         \<and> Some (1::real) = Some (mean w - 1 / 2 * sd)"
    by (simp only: bollinger_row.simps) blast
  from hr c show ?thesis by simp
qed

theorem generate_bollinger_columns_negative_std_counterexample:
  "generate_bollinger_columns [0, 2, 4] (- 2) 3 =
     [\<lparr>b_day = 2, b_close = 4, bollinger_high = Some (- 2), bollinger_low = Some 6,
       bollinger_signal = ''Buy''\<rparr>]
   \<and> (4::real) > - 2"
  by (simp add: generate_bollinger_columns_def bollinger_frame_def rolling_mean_def rolling_std_def
       window_def mean_def std_def nan2_def nan_less_def bollinger_notna_def Let_def
       upt_rec [of _ "numeral _"] upt_rec [of _ "Suc _"])

section \<open>Properties of \<open>run_simulation_df\<close>\<close>

lemmas frame_eval = run_simulation_df_def get_security_names_def last_word_def lower_def
  lower_char_def generate_ma_columns_frame_def generate_bollinger_columns_frame_def column_def
  ma_col_def bollinger_high_col_def bollinger_low_col_def dropna_def notna_rows_def select_def
  iterrows_def plot_security_def Let_def

lemmas indicator_eval = ma_frame_def bollinger_frame_def rolling_mean_def rolling_std_def
  window_def mean_def std_def crossover_col_def nan2_def nan_less_def
  upt_rec [of _ "numeral _"] upt_rec [of _ "Suc _"]

subsection \<open>Frames with zero rows\<close>

lemma dropna_zero_rows: "f_index df = [] \<Longrightarrow> f_index (dropna df num lab) = []"
  by (simp add: dropna_def notna_rows_def select_def)

lemma generate_ma_columns_frame_zero_rows:
  "generate_ma_columns_frame df securities col_name ndays = Inr df' \<Longrightarrow> f_index df = []
   \<Longrightarrow> f_index df' = []"
  by (auto simp add: generate_ma_columns_frame_def dropna_zero_rows split: if_splits sum.splits)

lemma generate_bollinger_columns_frame_zero_rows:
  "generate_bollinger_columns_frame df securities col_name k n = Inr df' \<Longrightarrow> f_index df = []
   \<Longrightarrow> f_index df' = []"
  by (auto simp add: generate_bollinger_columns_frame_def dropna_zero_rows split: sum.splits)

lemma iterrows_zero_rows: "f_index df = [] \<Longrightarrow> iterrows df = []"
  by (simp add: iterrows_def)

text \<open>
  On a frame with zero rows the loop makes no trade: a call that returns gives back the
  portfolio as constructed.  Without indicators and without plot options it returns.
\<close>

lemma run_simulation_df_zero_rows_fresh:
  assumes "f_index security_data = []"
    and "run_simulation_df security_data col_name c ind v plot_options = Inr p"
  shows "p = init c v"
proof -
  obtain df1 where df1: "(case ma_crossovers ind of
        Some ndays \<Rightarrow> generate_ma_columns_frame security_data
          (get_security_names security_data) (lower col_name) ndays
      | None \<Rightarrow> Inr security_data) = Inr df1"
    using assms(2) by (auto simp add: run_simulation_df_def Let_def split: sum.splits)
  have i1: "f_index df1 = []"
    using df1 assms(1)
    by (auto split: option.splits dest: generate_ma_columns_frame_zero_rows)
  obtain df2 where df2: "(case (bollinger_std ind, bollinger_len ind) of
        (Some k, Some n) \<Rightarrow> generate_bollinger_columns_frame df1
          (get_security_names security_data) (lower col_name) k n
      | _ \<Rightarrow> Inr df1) = Inr df2"
    using assms(2) df1 by (auto simp add: run_simulation_df_def Let_def split: sum.splits)
  have i2: "f_index df2 = []"
    using df2 i1
    by (auto split: option.splits prod.splits dest: generate_bollinger_columns_frame_zero_rows)
  from i2 have "iterrows df2 = []" by (rule iterrows_zero_rows)
  then show ?thesis
    using assms(2) df1 df2
    by (auto simp add: run_simulation_df_def Let_def split: sum.splits option.splits)
qed

lemma run_simulation_df_zero_rows_no_plot:
  assumes "f_index security_data = []"
  shows "run_simulation_df security_data col_name c
           \<lparr>ma_crossovers = None, bollinger_len = None, bollinger_std = None\<rparr> v {}
         = Inr (init c v)"
proof -
  have "plot_simulation security_data
          \<lparr>ma_crossovers = None, bollinger_len = None, bollinger_std = None\<rparr> {} securities
        = None" for securities
    by (induction securities) (simp_all add: plot_security_def)
  with assms show ?thesis
    by (simp add: run_simulation_df_def Let_def iterrows_zero_rows)
qed

text \<open>
  C9.  On a price frame with zero rows and one security, called with the default
  indicators and the default plot options, \<open>run_simulation_df\<close> does not return a
  portfolio: the loop makes no trade, and \<open>_plot_simulation\<close> then raises TypeError when it
  plots the empty close column.  With no plot option the same call returns the
  portfolio as constructed: the starting cash, no holdings, no transactions.
\<close>

theorem run_simulation_df_zero_rows_raises:
  "run_simulation_df \<lparr>f_index = [], f_columns = [(''close_abc'', [])], f_labels = []\<rparr>
     ''close'' 10000
     \<lparr>ma_crossovers = Some [5, 10], bollinger_len = None, bollinger_std = None\<rparr> True
     {''transactions''}
   = Inl TypeError
   \<and> run_simulation_df \<lparr>f_index = [], f_columns = [(''close_abc'', [])], f_labels = []\<rparr>
     ''close'' 10000
     \<lparr>ma_crossovers = Some [5, 10], bollinger_len = None, bollinger_std = None\<rparr> True {}
   = Inr \<lparr>start_cash_amt = 10000, total_cash_amt = 10000, security_dict = Map.empty,
          verbose = True, trans_df = []\<rparr>"
  by (simp add: frame_eval indicator_eval init_def)

text \<open>A list of moving-average lengths that has not two entries is refused before the
  portfolio is created, on any frame.\<close>

lemma run_simulation_df_ndays_length:
  "length ndays \<noteq> 2 \<Longrightarrow>
   run_simulation_df security_data col_name c
     \<lparr>ma_crossovers = Some ndays, bollinger_len = bl, bollinger_std = bs\<rparr> v plot_options
   = Inl NdaysLength"
  by (simp add: run_simulation_df_def generate_ma_columns_frame_def Let_def)

subsection \<open>The Bollinger rule of the loop\<close>

text \<open>
  The loop reads the bands as \<open>close_<security>_bollinger_high\<close> and
  \<open>close_<security>_bollinger_low\<close>.  On a row that has neither column the rule raises
  KeyError, whatever the state is; a row that carries the bands under the names
  \<open>generate_bollinger_columns\<close> gives them is such a row.
\<close>

lemma get_bollinger_price_KeyError:
  assumes "row (''close_'' @ security @ ''_bollinger_high'') = None"
    and "row (''close_'' @ security @ ''_bollinger_low'') = None"
  shows "get_bollinger_price index row security purchase_price st = Inl KeyError"
  using assms by (simp add: get_bollinger_price_def Let_def split: option.splits)

lemma get_bollinger_price_generated_names:
  "get_bollinger_price index
     [''close_abc'' \<mapsto> c, bollinger_high_col ''close'' ''abc'' \<mapsto> h,
      bollinger_low_col ''close'' ''abc'' \<mapsto> l]
     ''abc'' purchase_price st = Inl KeyError"
  by (simp add: get_bollinger_price_def bollinger_high_col_def bollinger_low_col_def Let_def)

text \<open>
  The moving-average rule sells only above \<open>purchase_price\<close>:
\<close>

lemma get_ma_crossovers_price_sell_gate:
  assumes "row (''close_'' @ security) = Some close"
    and "row (''ma_diff_'' @ security) = Some diff"
    and "get_ma_crossovers_price index row security purchase_price st = Inr (st', pp')"
    and "trans_df (sec_port st') = trans_df (sec_port st) @ [tr]"
    and "trans_type tr = ''Sell''"
  shows "security \<in> bought_securities st \<and> diff < 0 \<and> close > purchase_price"
  using assms
  by (auto simp add: get_ma_crossovers_price_def Let_def buy_max_securities_def buy_securities_def
        sell_all_securities_def sell_securities_def
      split: if_splits option.splits prod.splits)

text \<open>
  The Bollinger rule has that comparison commented out.  Were a row to carry the bands
  under the names the rule reads, a held security would be sold above the high band
  also below \<open>purchase_price\<close>:
\<close>

lemma get_bollinger_price_sell_below_purchase_price:
  "get_bollinger_price 9
     [''close_abc'' \<mapsto> 5, ''close_abc_bollinger_high'' \<mapsto> 4, ''close_abc_bollinger_low'' \<mapsto> 1]
     ''abc'' 10
     \<lparr>sec_port = \<lparr>start_cash_amt = 100, total_cash_amt = 70, security_dict = [''abc'' \<mapsto> 3],
                   verbose = False, trans_df = []\<rparr>,
       bought_securities = {''abc''}\<rparr>
   = Inr (\<lparr>sec_port = \<lparr>start_cash_amt = 100, total_cash_amt = 85,
                         security_dict = [''abc'' \<mapsto> 0], verbose = False,
                         trans_df = [\<lparr>tr_date = 9, tr_security = ''abc'', trans_type = ''Sell'',
                            tr_security_price = 5, amt = 15, tr_total_cash_amt = 85\<rparr>]\<rparr>,
           bought_securities = {}\<rparr>, 10)"
  by (simp add: get_bollinger_price_def sell_all_securities_def sell_securities_def)


end
